theory Spec2Isabelle
  imports
    Main
    "HOL-Library.AList"
    "HOL-Library.Word"
    "HOL-Library.Char_ord"
    "HOL-Library.List_Lexorder"
    "HOL-Library.Sublist"
begin

unbundle bit_operations_syntax

section \<open>Python values and strings\<close>

text \<open>
  The program is \<^verbatim>\<open>server_lookup.py\<close>. A Python \<^verbatim>\<open>str\<close> is modelled as a
  \<^typ>\<open>string\<close> whose characters are the code points U+0000 to U+00FF; the order on
  strings is the lexicographic order on code points, as Python compares them.

  What \<^verbatim>\<open>json.load\<close> returns is a value of the following type: \<^verbatim>\<open>None\<close>, a
  \<^verbatim>\<open>bool\<close>, an \<^verbatim>\<open>int\<close>, a \<^verbatim>\<open>float\<close> (the 64 bits of the IEEE double), a
  \<^verbatim>\<open>str\<close>, a \<^verbatim>\<open>list\<close> or a \<^verbatim>\<open>dict\<close> with string keys (an association list in
  insertion order).
\<close>

datatype json =
    JNull
  | JBool bool
  | JInt int
  | JFloat "64 word"
  | JStr string
  | JArr "json list"
  | JObj "(string \<times> json) list"

text \<open>
  The exceptions the program can raise. \<^verbatim>\<open>JSONDecodeError\<close> is a subclass of
  \<^verbatim>\<open>ValueError\<close> in Python's \<^verbatim>\<open>json\<close> module.
\<close>

datatype error =
    FileNotFoundError string
  | JSONDecodeError
  | ValueError string
  | AttributeError
  | TypeError
  | KeyError string
  | SystemExit nat

fun is_ValueError :: "error \<Rightarrow> bool" where
  "is_ValueError (ValueError msg) = True"
| "is_ValueError JSONDecodeError = True"
| "is_ValueError e = False"

text \<open>Truth value testing, as in \<^verbatim>\<open>if not hostname\<close>: a float is false when it is
  \<^verbatim>\<open>0.0\<close> or \<^verbatim>\<open>-0.0\<close>, that is, when all bits but the sign bit are zero.\<close>

fun truth :: "json \<Rightarrow> bool" where
  "truth JNull = False"
| "truth (JBool b) = b"
| "truth (JInt i) = (i \<noteq> 0)"
| "truth (JFloat w) = (w AND 0x7FFFFFFFFFFFFFFF \<noteq> 0)"
| "truth (JStr s) = (s \<noteq> [])"
| "truth (JArr xs) = (xs \<noteq> [])"
| "truth (JObj kvs) = (kvs \<noteq> [])"

text \<open>\<^verbatim>\<open>str.lower()\<close> on the code points up to U+00FF: the upper-case letters are
  A to Z and U+00C0 to U+00DE without the multiplication sign U+00D7, and each has its
  lower-case letter 32 places further.\<close>

definition lower_char :: "char \<Rightarrow> char" where
  "lower_char c =
     (let n = (of_char c :: nat)
      in if (65 \<le> n \<and> n \<le> 90) \<or> (192 \<le> n \<and> n \<le> 222 \<and> n \<noteq> 215)
         then char_of (n + 32) else c)"

definition lower :: "string \<Rightarrow> string" where
  "lower s = map lower_char s"

text \<open>\<^verbatim>\<open>repr()\<close> of a \<^verbatim>\<open>str\<close>: single quotes around the text, double quotes when
  the text has a single quote and no double quote; the quote character and the backslash
  are escaped with a backslash, tab, newline and carriage return are written
  \<^verbatim>\<open>\t\<close>, \<^verbatim>\<open>\n\<close>, \<^verbatim>\<open>\r\<close>, and any other non-printable character as
  \<^verbatim>\<open>\xhh\<close>.\<close>

definition printable :: "char \<Rightarrow> bool" where
  "printable c =
     (let n = (of_char c :: nat)
      in (32 \<le> n \<and> n < 127) \<or> (161 \<le> n \<and> n \<noteq> 173))"

definition hex_digit :: "nat \<Rightarrow> char" where
  "hex_digit n = ''0123456789abcdef'' ! n"

definition repr_char :: "char \<Rightarrow> char \<Rightarrow> string" where
  "repr_char quote ch =
     (if ch = quote \<or> ch = CHR 0x5C then [CHR 0x5C, ch]
      else if ch = CHR 0x09 then [CHR 0x5C, CHR ''t'']
      else if ch = CHR 0x0A then [CHR 0x5C, CHR ''n'']
      else if ch = CHR 0x0D then [CHR 0x5C, CHR ''r'']
      else if \<not> printable ch then
        [CHR 0x5C, CHR ''x'', hex_digit (of_char ch div 16), hex_digit (of_char ch mod 16)]
      else [ch])"

definition repr :: "string \<Rightarrow> string" where
  "repr s =
     (let quote = (if CHR 0x27 \<in> set s \<and> CHR 0x22 \<notin> set s then CHR 0x22 else CHR 0x27)
      in [quote] @ concat (map (repr_char quote) s) @ [quote])"

section \<open>The index builder\<close>

text \<open>A Python \<^verbatim>\<open>dict\<close> keeps its keys in insertion order: assigning to a key that
  is present replaces the value in place, assigning to a new key appends the entry. That
  is \<^const>\<open>AList.update\<close> on an association list.\<close>

type_synonym index = "(string \<times> json) list"

text \<open>\<^verbatim>\<open>row.get(key)\<close>: only a \<^verbatim>\<open>dict\<close> has the method; a missing key gives
  \<^verbatim>\<open>None\<close>.\<close>

fun get :: "json \<Rightarrow> string \<Rightarrow> error + json" where
  "get (JObj kvs) key = Inr (case map_of kvs key of None \<Rightarrow> JNull | Some v \<Rightarrow> v)"
| "get row key = Inl AttributeError"

text \<open>\<^verbatim>\<open>hostname.lower()\<close>: only a \<^verbatim>\<open>str\<close> has the method.\<close>

fun str_lower :: "json \<Rightarrow> error + string" where
  "str_lower (JStr s) = Inr (lower s)"
| "str_lower v = Inl AttributeError"

text \<open>The loop of \<^verbatim>\<open>load_index\<close> (lines 58 to 65), from the index built so far.\<close>

fun load_index_loop :: "index \<Rightarrow> json list \<Rightarrow> error + index" where
  "load_index_loop index [] = Inr index"
| "load_index_loop index (row # data) =
     (case get row ''hostname'' of
        Inl e \<Rightarrow> Inl e
      | Inr hostname \<Rightarrow>
          if \<not> truth hostname then load_index_loop index data
          else (case str_lower hostname of
                  Inl e \<Rightarrow> Inl e
                | Inr key \<Rightarrow> load_index_loop (AList.update key row index) data))"

text \<open>
  The world outside the program: the file system and the standard output. A path is the
  string form of the \<^verbatim>\<open>Path\<close> object. The file system gives, for a path that exists,
  what \<^verbatim>\<open>json.load\<close> makes of the file there: a decoding error, or the value read. The
  standard output is the sequence of \<^verbatim>\<open>print\<close> calls: \<open>Print v\<close> is
  \<^verbatim>\<open>print(v)\<close>, which writes a \<^verbatim>\<open>str\<close> as it is, followed by a newline;
  \<open>PrintDumps v n\<close> is \<^verbatim>\<open>print(json.dumps(v, indent=n))\<close>.
\<close>

type_synonym path = string

datatype document = NotJSON | JSON json

datatype printed = Print json | PrintDumps json nat

record world =
  files :: "path \<rightharpoonup> document"
  stdout :: "printed list"

text \<open>\<^verbatim>\<open>load_index\<close> returns its result and the world as it leaves it.\<close>

definition load_index :: "path \<Rightarrow> world \<Rightarrow> (error + index) \<times> world" where
  "load_index json_path w =
     (case files w json_path of
        None \<Rightarrow> (Inl (FileNotFoundError (''JSON file not found: '' @ json_path)), w)
      | Some NotJSON \<Rightarrow> (Inl JSONDecodeError, w)
      | Some (JSON data) \<Rightarrow>
          (case data of
             JArr rows \<Rightarrow> (load_index_loop [] rows, w)
           | _ \<Rightarrow> (Inl (ValueError ''Expected a list of server objects in the JSON.''), w)))"

section \<open>Lookup and the command line\<close>

text \<open>\<^verbatim>\<open>lookup\<close> receives the index by reference; it returns its result and the
  index as it leaves it.\<close>

definition lookup :: "index \<Rightarrow> string \<Rightarrow> (error + json) \<times> index" where
  "lookup index hostname =
     (let key = lower hostname
      in case map_of index key of
           None \<Rightarrow> (Inl (KeyError (''Hostname not found: '' @ hostname)), index)
         | Some info \<Rightarrow> (Inr info, index))"

text \<open>Subscription \<^verbatim>\<open>row[key]\<close> with a string key.\<close>

fun subscript :: "json \<Rightarrow> string \<Rightarrow> error + json" where
  "subscript (JObj kvs) key =
     (case map_of kvs key of None \<Rightarrow> Inl (KeyError key) | Some v \<Rightarrow> Inr v)"
| "subscript row key = Inl TypeError"

definition print :: "printed \<Rightarrow> world \<Rightarrow> world" where
  "print x w = w\<lparr>stdout := stdout w @ [x]\<rparr>"

text \<open>The listing loop of \<^verbatim>\<open>main\<close> (lines 120 and 121) over the sorted names.\<close>

fun list_hostnames :: "string list \<Rightarrow> index \<Rightarrow> world \<Rightarrow> (error + unit) \<times> index \<times> world" where
  "list_hostnames [] index w = (Inr (), index, w)"
| "list_hostnames (name # names) index w =
     (case map_of index name of
        None \<Rightarrow> (Inl (KeyError name), index, w)
      | Some row \<Rightarrow>
          (case subscript row ''hostname'' of
             Inl e \<Rightarrow> (Inl e, index, w)
           | Inr hostname \<Rightarrow> list_hostnames names index (print (Print hostname) w)))"

text \<open>The lookup branch of \<^verbatim>\<open>main\<close> (lines 124 to 131). \<^verbatim>\<open>str(e)\<close> of a
  \<^verbatim>\<open>KeyError\<close> is the \<^verbatim>\<open>repr\<close> of its argument.\<close>

definition show_host :: "index \<Rightarrow> string \<Rightarrow> world \<Rightarrow> (error + unit) \<times> index \<times> world" where
  "show_host index hostname w =
     (case lookup index hostname of
        (Inl (KeyError msg), index') \<Rightarrow>
          (Inl (SystemExit 1), index', print (Print (JStr (repr msg))) w)
      | (Inl e, index') \<Rightarrow> (Inl e, index', w)
      | (Inr info, index') \<Rightarrow> (Inr (), index', print (PrintDumps info 2) w))"

text \<open>The parsed arguments: \<^verbatim>\<open>--json\<close> (with its default already filled in) and
  \<^verbatim>\<open>--host\<close>.\<close>

record args =
  json :: path
  host :: "string option"

definition main :: "args \<Rightarrow> world \<Rightarrow> (error + unit) \<times> world" where
  "main a w =
     (case load_index (json a) w of
        (Inl e, w') \<Rightarrow> (Inl e, w')
      | (Inr index, w') \<Rightarrow>
          (case host a of
             None \<Rightarrow>
               (case list_hostnames (sort (map fst index)) index w' of (r, _, w'') \<Rightarrow> (r, w''))
           | Some hostname \<Rightarrow>
               if hostname = [] then
                 (case list_hostnames (sort (map fst index)) index w' of (r, _, w'') \<Rightarrow> (r, w''))
               else
                 (case show_host index hostname w' of (r, _, w'') \<Rightarrow> (r, w''))))"

text \<open>The exit status of the process: 0 when \<^verbatim>\<open>main\<close> returns, the argument of
  \<^verbatim>\<open>SystemExit\<close>, and 1 for any other exception that reaches the top level.\<close>

fun exit_code :: "error + unit \<Rightarrow> nat" where
  "exit_code (Inr u) = 0"
| "exit_code (Inl (SystemExit n)) = n"
| "exit_code (Inl e) = 1"

section \<open>Notions used in the statements\<close>

text \<open>The string value of the \<^verbatim>\<open>hostname\<close> field of an object, that is,
  \<^verbatim>\<open>row["hostname"]\<close> when it is a \<^verbatim>\<open>str\<close>.\<close>

definition hostname_of :: "json \<Rightarrow> string option" where
  "hostname_of row =
     (case subscript row ''hostname'' of Inr (JStr s) \<Rightarrow> Some s | _ \<Rightarrow> None)"

text \<open>An element with no \<^verbatim>\<open>hostname\<close> field, or with the empty string there.\<close>

fun hostname_absent_or_empty :: "json \<Rightarrow> bool" where
  "hostname_absent_or_empty (JObj kvs) =
     (map_of kvs ''hostname'' = None \<or> map_of kvs ''hostname'' = Some (JStr []))"
| "hostname_absent_or_empty row = False"

text \<open>An element that is not an object, or an object whose \<^verbatim>\<open>hostname\<close> is a true
  value that is not a string.\<close>

fun ill_typed :: "json \<Rightarrow> bool" where
  "ill_typed (JObj kvs) =
     (case map_of kvs ''hostname'' of
        None \<Rightarrow> False
      | Some (JStr s) \<Rightarrow> False
      | Some v \<Rightarrow> truth v)"
| "ill_typed row = True"

text \<open>The element has a non-empty string hostname that lowercases to \<open>k\<close>; the last such
  element of an array, in input order.\<close>

definition has_key :: "string \<Rightarrow> json \<Rightarrow> bool" where
  "has_key k row =
     (case hostname_of row of None \<Rightarrow> False | Some s \<Rightarrow> s \<noteq> [] \<and> lower s = k)"


text \<open>What one round of the loop does to the index when the element is well typed, and the
  hostname printed for a key of the index; both serve the proofs only.\<close>

definition store_row :: "json \<Rightarrow> index \<Rightarrow> index" where
  "store_row row index =
     (case hostname_of row of
        None \<Rightarrow> index
      | Some s \<Rightarrow> if s = [] then index else AList.update (lower s) row index)"


text \<open>A name that \<^verbatim>\<open>repr\<close> leaves as it is: printable characters only, no backslash,
  and not both kinds of quote.\<close>

definition plain :: "string \<Rightarrow> bool" where
  "plain s \<longleftrightarrow> (\<forall>c\<in>set s. printable c \<and> c \<noteq> CHR 0x5C)
                \<and> (CHR 0x27 \<notin> set s \<or> CHR 0x22 \<notin> set s)"

section \<open>Example data\<close>

definition alpha :: json where
  "alpha = JObj [(''hostname'', JStr ''Alpha''), (''os'', JStr ''Linux'')]"

definition beta :: json where
  "beta = JObj [(''hostname'', JStr ''beta''), (''os'', JStr ''BSD'')]"


definition nameless :: json where
  "nameless = JObj [(''os'', JStr ''Linux'')]"

definition unnamed :: json where
  "unnamed = JObj [(''hostname'', JStr ''''), (''os'', JStr ''Linux'')]"

definition numbered :: json where
  "numbered = JObj [(''hostname'', JInt 7)]"

definition backslashed :: string where
  "backslashed = [CHR ''a'', CHR 0x5C, CHR ''b'']"

definition disk :: "json \<Rightarrow> world" where
  "disk data = \<lparr>files = [''servers.json'' \<mapsto> JSON data], stdout = []\<rparr>"



section \<open>The loop of the index builder\<close>

lemma hostname_of_subscript:
  "hostname_of row = Some s \<longleftrightarrow> subscript row ''hostname'' = Inr (JStr s)"
  by (cases row) (auto simp: hostname_of_def split: option.splits json.splits)

lemma hostname_of_Obj:
  "hostname_of (JObj kvs) = (case map_of kvs ''hostname'' of Some (JStr s) \<Rightarrow> Some s | _ \<Rightarrow> None)"
  by (simp add: hostname_of_def split: option.splits json.splits)

lemma has_key_iff:
  "has_key k row \<longleftrightarrow> (\<exists>s. hostname_of row = Some s \<and> s \<noteq> [] \<and> lower s = k)"
  by (simp add: has_key_def split: option.splits)


lemma loop_ill_typed:
  "ill_typed row \<Longrightarrow> load_index_loop index (row # data) = Inl AttributeError"
  by (cases row) (auto split: option.splits json.splits)

lemma loop_well_typed:
  "\<not> ill_typed row \<Longrightarrow>
     load_index_loop index (row # data) = load_index_loop (store_row row index) data"
  by (cases row) (auto simp: store_row_def hostname_of_Obj split: option.splits json.splits)

lemma loop_fold:
  "\<forall>row\<in>set rows. \<not> ill_typed row \<Longrightarrow>
     load_index_loop index rows = Inr (fold store_row rows index)"
  by (induction rows arbitrary: index)
     (simp_all add: loop_well_typed del: load_index_loop.simps(2))

lemma loop_error:
  "\<exists>row\<in>set rows. ill_typed row \<Longrightarrow> load_index_loop index rows = Inl AttributeError"
proof (induction rows arbitrary: index)
  case Nil
  then show ?case by simp
next
  case (Cons row rows)
  show ?case
  proof (cases "ill_typed row")
    case True
    then show ?thesis by (rule loop_ill_typed)
  next
    case False
    with Cons.prems have "\<exists>r\<in>set rows. ill_typed r" by auto
    then have "load_index_loop (store_row row index) rows = Inl AttributeError"
      by (rule Cons.IH)
    with False show ?thesis by (simp add: loop_well_typed del: load_index_loop.simps(2))
  qed
qed

lemma loop_Inr_iff:
  "(\<exists>index'. load_index_loop index rows = Inr index') \<longleftrightarrow> (\<forall>row\<in>set rows. \<not> ill_typed row)"
  using loop_fold [of rows index] loop_error [of rows index]
  by (cases "\<exists>row\<in>set rows. ill_typed row") auto








lemma set_update_subset: "set (AList.update k v al) \<subseteq> insert (k, v) (set al)"
  by (induction al) auto

lemma entries_store_row:
  "(k, r) \<in> set (store_row row index) \<Longrightarrow> (k, r) \<in> set index \<or> (r = row \<and> has_key k row)"
  using set_update_subset [of _ row index]
  by (auto simp: store_row_def has_key_def split: option.splits if_splits)

lemma entries_fold_store_row:
  "(k, r) \<in> set (fold store_row rows index) \<Longrightarrow>
     (k, r) \<in> set index \<or> (r \<in> set rows \<and> has_key k r)"
proof (induction rows arbitrary: index)
  case Nil
  then show ?case by simp
next
  case (Cons row rows)
  from Cons.prems have "(k, r) \<in> set (fold store_row rows (store_row row index))" by simp
  then have "(k, r) \<in> set (store_row row index) \<or> (r \<in> set rows \<and> has_key k r)"
    by (rule Cons.IH)
  then show ?case using entries_store_row [of k r row index] by auto
qed

lemma loop_skip:
  "hostname_absent_or_empty row \<Longrightarrow>
     load_index_loop index (row # data) = load_index_loop index data"
  by (cases row) auto

lemma loop_filter:
  "load_index_loop index rows
     = load_index_loop index (filter (\<lambda>row. \<not> hostname_absent_or_empty row) rows)"
proof (induction rows arbitrary: index)
  case Nil
  show ?case by simp
next
  case (Cons row rows)
  show ?case
  proof (cases "hostname_absent_or_empty row")
    case True
    then show ?thesis using Cons.IH by (simp add: loop_skip del: load_index_loop.simps(2))
  next
    case False
    then show ?thesis using Cons.IH by (simp split: sum.splits)
  qed
qed

lemma absent_or_empty_no_key: "hostname_absent_or_empty row \<Longrightarrow> \<not> has_key k row"
  by (cases row) (auto simp: has_key_def hostname_of_Obj)

section \<open>The index returned by \<^verbatim>\<open>load_index\<close>\<close>

lemma load_index_list:
  "files w p = Some (JSON (JArr rows)) \<Longrightarrow> load_index p w = (load_index_loop [] rows, w)"
  by (simp add: load_index_def)

lemma load_index_world: "snd (load_index p w) = w"
  by (simp add: load_index_def split: option.splits document.splits json.splits)

lemma load_index_eq: "fst (load_index p w) = r \<Longrightarrow> load_index p w = (r, w)"
  using load_index_world [of p w] by (metis prod.collapse)


lemma load_index_Inr:
  assumes "fst (load_index p w) = Inr index"
  shows "\<exists>rows. files w p = Some (JSON (JArr rows)) \<and> (\<forall>row\<in>set rows. \<not> ill_typed row)
           \<and> index = fold store_row rows []"
proof -
  from assms obtain rows where f: "files w p = Some (JSON (JArr rows))"
    and l: "load_index_loop [] rows = Inr index"
    by (auto simp: load_index_def split: option.splits document.splits json.splits)
  from l have g: "\<forall>row\<in>set rows. \<not> ill_typed row"
    using loop_Inr_iff [of "[]" rows] by blast
  with l have "index = fold store_row rows []" by (simp add: loop_fold)
  with f g show ?thesis by blast
qed






text \<open>
  C5. In every index produced by \<^verbatim>\<open>load_index\<close>, every key equals the lowercased
  \<^verbatim>\<open>hostname\<close> value of the record stored under that key.
\<close>

theorem index_keys_lowercased:
  assumes "fst (load_index p w) = Inr index" and "map_of index k = Some row"
  shows "\<exists>s. subscript row ''hostname'' = Inr (JStr s) \<and> k = lower s"
proof -
  from assms(1) obtain rows where "index = fold store_row rows []"
    using load_index_Inr by blast
  moreover from assms(2) have "(k, row) \<in> set index" by (rule map_of_SomeD)
  ultimately have "has_key k row"
    using entries_fold_store_row [of k row rows "[]"] by simp
  then show ?thesis by (auto simp: has_key_iff hostname_of_subscript)
qed

theorem index_keys_lowercased_witness:
  "fst (load_index ''servers.json'' (disk (JArr [alpha, beta])))
     = Inr [(''alpha'', alpha), (''beta'', beta)]
   \<and> map_of [(''alpha'', alpha), (''beta'', beta)] ''alpha'' = Some alpha
   \<and> subscript alpha ''hostname'' = Inr (JStr ''Alpha'') \<and> ''alpha'' = lower ''Alpha''"
proof -
  have 1: "fst (load_index ''servers.json'' (disk (JArr [alpha, beta])))
             = Inr [(''alpha'', alpha), (''beta'', beta)]"
    by code_simp
  have 2: "map_of [(''alpha'', alpha), (''beta'', beta)] ''alpha'' = Some alpha" by simp
  have 3: "subscript alpha ''hostname'' = Inr (JStr ''Alpha'')" by (simp add: alpha_def)
  from index_keys_lowercased [OF 1 2] obtain s
    where "subscript alpha ''hostname'' = Inr (JStr s)" and "''alpha'' = lower s" by blast
  with 3 have "''alpha'' = lower ''Alpha''" by simp
  with 1 2 3 show ?thesis by simp
qed

text \<open>
  C6. Elements of the input array whose \<^verbatim>\<open>hostname\<close> field is absent or empty are
  skipped silently by \<^verbatim>\<open>load_index\<close>: the result is that of the loop run on the array
  without them, and none of them is a value of the index.
\<close>

theorem load_index_skips_rows_without_hostname:
  assumes "files w p = Some (JSON (JArr rows))"
  shows "fst (load_index p w)
           = load_index_loop [] (filter (\<lambda>row. \<not> hostname_absent_or_empty row) rows)
         \<and> (\<forall>index row. fst (load_index p w) = Inr index \<longrightarrow> row \<in> set rows \<longrightarrow>
               hostname_absent_or_empty row \<longrightarrow> row \<notin> snd ` set index)"
proof (intro conjI allI impI)
  from assms show "fst (load_index p w)
      = load_index_loop [] (filter (\<lambda>row. \<not> hostname_absent_or_empty row) rows)"
    using loop_filter [of "[]" rows] by (simp add: load_index_list)
next
  fix index row
  assume i: "fst (load_index p w) = Inr index" and e: "hostname_absent_or_empty row"
  show "row \<notin> snd ` set index"
  proof
    assume "row \<in> snd ` set index"
    then obtain k where "(k, row) \<in> set index" by auto
    moreover from i obtain rows' where "index = fold store_row rows' []"
      using load_index_Inr by blast
    ultimately have "has_key k row"
      using entries_fold_store_row [of k row rows' "[]"] by simp
    with e show False by (simp add: absent_or_empty_no_key)
  qed
qed

theorem load_index_skips_rows_without_hostname_witness:
  "files (disk (JArr [nameless, alpha, unnamed])) ''servers.json''
     = Some (JSON (JArr [nameless, alpha, unnamed]))
   \<and> hostname_absent_or_empty nameless \<and> hostname_absent_or_empty unnamed
   \<and> \<not> hostname_absent_or_empty alpha
   \<and> fst (load_index ''servers.json'' (disk (JArr [nameless, alpha, unnamed])))
       = load_index_loop [] [alpha]
   \<and> load_index_loop [] [alpha] = Inr [(''alpha'', alpha)]
   \<and> nameless \<notin> snd ` set [(''alpha'', alpha)] \<and> unnamed \<notin> snd ` set [(''alpha'', alpha)]"
proof -
  have f: "files (disk (JArr [nameless, alpha, unnamed])) ''servers.json''
             = Some (JSON (JArr [nameless, alpha, unnamed]))"
    by (simp add: disk_def)
  have h: "hostname_absent_or_empty nameless \<and> hostname_absent_or_empty unnamed
             \<and> \<not> hostname_absent_or_empty alpha"
    by (simp add: nameless_def unnamed_def alpha_def)
  have l: "load_index_loop [] [alpha] = Inr [(''alpha'', alpha)]" by code_simp
  note t = load_index_skips_rows_without_hostname [OF f]
  from t h have 1: "fst (load_index ''servers.json'' (disk (JArr [nameless, alpha, unnamed])))
       = load_index_loop [] [alpha]" by simp
  with l have 2: "fst (load_index ''servers.json'' (disk (JArr [nameless, alpha, unnamed])))
       = Inr [(''alpha'', alpha)]" by simp
  from t 2 h have "nameless \<notin> snd ` set [(''alpha'', alpha)]
      \<and> unnamed \<notin> snd ` set [(''alpha'', alpha)]"
    by (meson list.set_intros)
  with f h l 1 show ?thesis by simp
qed

text \<open>
  C10. \<^verbatim>\<open>load_index\<close> validates only the top-level shape: when the top-level value is a
  list that contains an element that is not an object, or an element whose
  \<^verbatim>\<open>hostname\<close> is a true value that is not a string, it raises
  \<^verbatim>\<open>AttributeError\<close>, which is not a \<^verbatim>\<open>ValueError\<close>; the element is neither
  skipped nor reported as malformed input.
\<close>

theorem load_index_attribute_error:
  assumes "files w p = Some (JSON (JArr rows))" and "\<exists>row\<in>set rows. ill_typed row"
  shows "fst (load_index p w) = Inl AttributeError \<and> \<not> is_ValueError AttributeError"
  using assms loop_error [of rows "[]"] by (simp add: load_index_list)

theorem load_index_attribute_error_witness:
  "files (disk (JArr [alpha, numbered])) ''servers.json'' = Some (JSON (JArr [alpha, numbered]))
   \<and> ill_typed numbered \<and> ill_typed (JStr ''alpha'')
   \<and> fst (load_index ''servers.json'' (disk (JArr [alpha, numbered]))) = Inl AttributeError
   \<and> \<not> is_ValueError AttributeError"
proof -
  have f: "files (disk (JArr [alpha, numbered])) ''servers.json''
             = Some (JSON (JArr [alpha, numbered]))"
    by (simp add: disk_def)
  have b: "ill_typed numbered \<and> ill_typed (JStr ''alpha'')" by (simp add: numbered_def)
  then have "\<exists>row\<in>set [alpha, numbered]. ill_typed row" by simp
  from load_index_attribute_error [OF f this] f b show ?thesis by simp
qed



section \<open>Lookup\<close>

lemma lookup_Inr: "fst (lookup index name) = Inr r \<longleftrightarrow> map_of index (lower name) = Some r"
  by (simp add: lookup_def split: option.splits)

lemma lookup_index: "snd (lookup index name) = index"
  by (simp add: lookup_def split: option.splits)

text \<open>
  C2. \<^verbatim>\<open>lookup\<close> is case-insensitive: for every index and two names that agree after
  lowercasing, it returns the same record for both, and it returns a record exactly when
  the lowercased name is a key of the index.
\<close>

theorem lookup_case_insensitive:
  assumes "lower a = lower b"
  shows "(\<forall>r. fst (lookup index a) = Inr r \<longleftrightarrow> fst (lookup index b) = Inr r)
         \<and> ((\<exists>r. fst (lookup index a) = Inr r) \<longleftrightarrow> lower a \<in> fst ` set index)"
proof -
  have "(\<exists>r. map_of index (lower a) = Some r) \<longleftrightarrow> lower a \<in> fst ` set index"
    using map_of_eq_None_iff [of index "lower a"] by auto
  with assms show ?thesis by (simp add: lookup_Inr)
qed

theorem lookup_case_insensitive_witness:
  "lower ''Host1'' = lower ''HOST1'' \<and> lower ''Host1'' = lower ''host1''
   \<and> fst (lookup [(''host1'', alpha)] ''Host1'') = Inr alpha
   \<and> fst (lookup [(''host1'', alpha)] ''HOST1'') = Inr alpha
   \<and> fst (lookup [(''host1'', alpha)] ''host1'') = Inr alpha
   \<and> lower ''Host1'' \<in> fst ` set [(''host1'', alpha)]"
proof -
  have 1: "lower ''Host1'' = lower ''HOST1''" by code_simp
  have 2: "lower ''Host1'' = lower ''host1''" by code_simp
  have 3: "fst (lookup [(''host1'', alpha)] ''Host1'') = Inr alpha" by code_simp
  from lookup_case_insensitive [OF 1, of "[(''host1'', alpha)]"] 3
  have 4: "fst (lookup [(''host1'', alpha)] ''HOST1'') = Inr alpha
           \<and> lower ''Host1'' \<in> fst ` set [(''host1'', alpha)]"
    by blast
  from lookup_case_insensitive [OF 2, of "[(''host1'', alpha)]"] 3
  have 5: "fst (lookup [(''host1'', alpha)] ''host1'') = Inr alpha" by blast
  from 1 2 3 4 5 show ?thesis by simp
qed

section \<open>The command line\<close>


lemma list_hostnames_index: "fst (snd (list_hostnames ks index w)) = index"
  by (induction ks arbitrary: w) (auto split: option.splits sum.splits)

lemma list_hostnames_files: "files (snd (snd (list_hostnames ks index w))) = files w"
  by (induction ks arbitrary: w) (auto simp: print_def split: option.splits sum.splits)

lemma list_hostnames_filesD:
  "list_hostnames ks index w = (r, i, w') \<Longrightarrow> files w' = files w"
  using list_hostnames_files [of ks index w] by simp

lemma show_host_index: "fst (snd (show_host index name w)) = index"
  by (simp add: show_host_def lookup_def split: option.splits)

lemma show_host_files: "files (snd (snd (show_host index name w))) = files w"
  by (simp add: show_host_def lookup_def print_def split: option.splits)

lemma show_host_filesD: "show_host index name w = (r, i, w') \<Longrightarrow> files w' = files w"
  using show_host_files [of index name w] by simp

lemma main_files: "files (snd (main a w)) = files w"
proof (cases "fst (load_index (json a) w)")
  case (Inl e)
  then have "load_index (json a) w = (Inl e, w)" by (rule load_index_eq)
  then show ?thesis by (simp add: main_def)
next
  case (Inr index)
  then have "load_index (json a) w = (Inr index, w)" by (rule load_index_eq)
  then show ?thesis
    by (auto simp: main_def split: option.splits prod.splits
          dest: list_hostnames_filesD show_host_filesD)
qed


lemma repr_char_plain:
  "printable c \<Longrightarrow> c \<noteq> CHR 0x5C \<Longrightarrow> c \<noteq> q \<Longrightarrow> repr_char q c = [c]"
  by (auto simp: repr_char_def printable_def)

lemma concat_repr_char_plain:
  "\<forall>c\<in>set s. printable c \<and> c \<noteq> CHR 0x5C \<and> c \<noteq> q \<Longrightarrow> concat (map (repr_char q) s) = s"
  by (induction s) (simp_all add: repr_char_plain)

lemma repr_plain:
  assumes "\<forall>c\<in>set s. printable c \<and> c \<noteq> CHR 0x5C"
    and "CHR 0x27 \<notin> set s \<or> CHR 0x22 \<notin> set s"
  shows "\<exists>q. repr s = [q] @ s @ [q]"
proof (cases "CHR 0x27 \<in> set s")
  case True
  with assms(2) have "CHR 0x22 \<notin> set s" by simp
  with assms(1) have "concat (map (repr_char (CHR 0x22)) s) = s"
    by (intro concat_repr_char_plain) auto
  with True \<open>CHR 0x22 \<notin> set s\<close> show ?thesis by (simp add: repr_def Let_def)
next
  case False
  with assms(1) have "concat (map (repr_char (CHR 0x27)) s) = s"
    by (intro concat_repr_char_plain) auto
  with False show ?thesis by (simp add: repr_def Let_def)
qed

lemma repr_contains_plain:
  assumes "plain name"
  shows "sublist name (repr (''Hostname not found: '' @ name))"
proof -
  let ?msg = "''Hostname not found: '' @ name"
  from assms have "\<forall>c\<in>set ?msg. printable c \<and> c \<noteq> CHR 0x5C"
    by (auto simp: plain_def printable_def)
  moreover from assms have "CHR 0x27 \<notin> set ?msg \<or> CHR 0x22 \<notin> set ?msg"
    by (auto simp: plain_def)
  ultimately obtain q where "repr ?msg = [q] @ ?msg @ [q]"
    using repr_plain by blast
  then have "repr ?msg = (q # ''Hostname not found: '') @ name @ [q]" by simp
  then show ?thesis by (metis sublist_appendI)
qed



text \<open>
  C3, as amended. Invoked with a non-empty \<^verbatim>\<open>--host\<close> name whose lowercased form is not
  a key of the index, the program prints one line, \<^verbatim>\<open>str()\<close> of the
  \<^verbatim>\<open>KeyError\<close> raised by \<^verbatim>\<open>lookup\<close>, and exits with status 1; the line contains
  the requested name when the name is made of printable characters, without backslash and
  without both kinds of quote. When the non-empty name is found, the program prints
  \<^verbatim>\<open>json.dumps\<close> of the record with indent 2 and terminates successfully.
\<close>

theorem main_host_lookup:
  assumes "fst (load_index (json a) w) = Inr index" and "host a = Some name" and "name \<noteq> []"
  shows "(lower name \<notin> fst ` set index \<longrightarrow>
            main a w = (Inl (SystemExit 1),
                        w\<lparr>stdout := stdout w
                             @ [Print (JStr (repr (''Hostname not found: '' @ name)))]\<rparr>)
            \<and> exit_code (fst (main a w)) = 1
            \<and> (plain name \<longrightarrow> sublist name (repr (''Hostname not found: '' @ name))))
         \<and> (\<forall>info. map_of index (lower name) = Some info \<longrightarrow>
              main a w = (Inr (), w\<lparr>stdout := stdout w @ [PrintDumps info 2]\<rparr>)
              \<and> exit_code (fst (main a w)) = 0)"
proof -
  from assms(1) have l: "load_index (json a) w = (Inr index, w)" by (rule load_index_eq)
  have miss: "lower name \<notin> fst ` set index \<Longrightarrow> map_of index (lower name) = None"
    by (simp add: map_of_eq_None_iff)
  from l assms(2,3) have "lower name \<notin> fst ` set index \<longrightarrow>
            main a w = (Inl (SystemExit 1),
                        w\<lparr>stdout := stdout w
                             @ [Print (JStr (repr (''Hostname not found: '' @ name)))]\<rparr>)
            \<and> exit_code (fst (main a w)) = 1"
    by (auto simp: main_def show_host_def lookup_def print_def dest: miss)
  moreover have "plain name \<longrightarrow> sublist name (repr (''Hostname not found: '' @ name))"
    using repr_contains_plain by blast
  moreover from l assms(2,3) have "\<forall>info. map_of index (lower name) = Some info \<longrightarrow>
              main a w = (Inr (), w\<lparr>stdout := stdout w @ [PrintDumps info 2]\<rparr>)
              \<and> exit_code (fst (main a w)) = 0"
    by (auto simp: main_def show_host_def lookup_def print_def)
  ultimately show ?thesis by blast
qed

theorem main_host_lookup_witness:
  "fst (load_index (json \<lparr>json = ''servers.json'', host = Some ''gamma''\<rparr>)
          (disk (JArr [alpha, beta])))
     = Inr [(''alpha'', alpha), (''beta'', beta)]
   \<and> ''gamma'' \<noteq> [] \<and> lower ''gamma'' \<notin> fst ` set [(''alpha'', alpha), (''beta'', beta)]
   \<and> plain ''gamma''
   \<and> stdout (snd (main \<lparr>json = ''servers.json'', host = Some ''gamma''\<rparr>
                 (disk (JArr [alpha, beta]))))
       = [Print (JStr (repr ''Hostname not found: gamma''))]
   \<and> exit_code (fst (main \<lparr>json = ''servers.json'', host = Some ''gamma''\<rparr>
                 (disk (JArr [alpha, beta])))) = 1
   \<and> sublist ''gamma'' (repr ''Hostname not found: gamma'')
   \<and> ''ALPHA'' \<noteq> [] \<and> map_of [(''alpha'', alpha), (''beta'', beta)] (lower ''ALPHA'') = Some alpha
   \<and> stdout (snd (main \<lparr>json = ''servers.json'', host = Some ''ALPHA''\<rparr>
                 (disk (JArr [alpha, beta]))))
       = [PrintDumps alpha 2]
   \<and> exit_code (fst (main \<lparr>json = ''servers.json'', host = Some ''ALPHA''\<rparr>
                 (disk (JArr [alpha, beta])))) = 0"
proof -
  let ?w = "disk (JArr [alpha, beta])"
  let ?g = "\<lparr>json = ''servers.json'', host = Some ''gamma''\<rparr>"
  let ?h = "\<lparr>json = ''servers.json'', host = Some ''ALPHA''\<rparr>"
  let ?index = "[(''alpha'', alpha), (''beta'', beta)]"
  have 1: "fst (load_index (json ?g) ?w) = Inr ?index" by code_simp
  have 2: "fst (load_index (json ?h) ?w) = Inr ?index" by code_simp
  have 3: "lower ''gamma'' \<notin> fst ` set ?index" by code_simp
  have 4: "plain ''gamma''" by code_simp
  have 5: "map_of ?index (lower ''ALPHA'') = Some alpha" by code_simp
  have 6: "stdout ?w = []" by (simp add: disk_def)
  from main_host_lookup [OF 1, of "''gamma''"] 3 4 6
  have g: "stdout (snd (main ?g ?w)) = [Print (JStr (repr ''Hostname not found: gamma''))]
        \<and> exit_code (fst (main ?g ?w)) = 1
        \<and> sublist ''gamma'' (repr ''Hostname not found: gamma'')"
    by simp
  from main_host_lookup [OF 2, of "''ALPHA''"] 5 6
  have h: "stdout (snd (main ?h ?w)) = [PrintDumps alpha 2] \<and> exit_code (fst (main ?h ?w)) = 0"
    by simp
  from 1 3 4 5 g h show ?thesis by simp
qed

text \<open>C3 as stated fails in two places. With the empty name after \<^verbatim>\<open>--host\<close>, which is
  no key of the index, the program lists the hostnames and terminates successfully. With
  the name \<^verbatim>\<open>a\b\<close>, the line printed has the backslash doubled and does not contain
  the name.\<close>

theorem main_host_lookup_counterexample:
  "fst (load_index ''servers.json'' (disk (JArr [alpha]))) = Inr [(''alpha'', alpha)]
   \<and> lower '''' \<notin> fst ` set [(''alpha'', alpha)]
   \<and> stdout (snd (main \<lparr>json = ''servers.json'', host = Some ''''\<rparr> (disk (JArr [alpha]))))
       = [Print (JStr ''Alpha'')]
   \<and> exit_code (fst (main \<lparr>json = ''servers.json'', host = Some ''''\<rparr> (disk (JArr [alpha])))) = 0
   \<and> lower backslashed \<notin> fst ` set [(''alpha'', alpha)]
   \<and> stdout (snd (main \<lparr>json = ''servers.json'', host = Some backslashed\<rparr> (disk (JArr [alpha]))))
       = [Print (JStr (repr (''Hostname not found: '' @ backslashed)))]
   \<and> \<not> sublist backslashed (repr (''Hostname not found: '' @ backslashed))"
  by code_simp

text \<open>
  C9. Neither \<^verbatim>\<open>lookup\<close>, on a hit or on a miss, nor the listing loop, nor the lookup
  branch of \<^verbatim>\<open>main\<close> changes the index; \<^verbatim>\<open>load_index\<close> leaves the file system and the
  standard output as they were, and its result depends on the file at the given path
  only; \<^verbatim>\<open>main\<close> leaves the file system as it was.
\<close>

theorem index_and_files_unchanged:
  "snd (lookup index name) = index
   \<and> fst (snd (list_hostnames names index w)) = index
   \<and> fst (snd (show_host index name w)) = index
   \<and> snd (load_index p w) = w
   \<and> (files w p = files w' p \<longrightarrow> fst (load_index p w) = fst (load_index p w'))
   \<and> files (snd (main a w)) = files w"
proof (intro conjI impI)
  show "snd (lookup index name) = index" by (rule lookup_index)
  show "fst (snd (list_hostnames names index w)) = index" by (rule list_hostnames_index)
  show "fst (snd (show_host index name w)) = index" by (rule show_host_index)
  show "snd (load_index p w) = w" by (rule load_index_world)
  show "files (snd (main a w)) = files w" by (rule main_files)
next
  assume "files w p = files w' p"
  then show "fst (load_index p w) = fst (load_index p w')"
    by (simp add: load_index_def split: option.splits document.splits json.splits)
qed

theorem index_and_files_unchanged_witness:
  "snd (lookup [(''alpha'', alpha)] ''ALPHA'') = [(''alpha'', alpha)]
   \<and> snd (lookup [(''alpha'', alpha)] ''gamma'') = [(''alpha'', alpha)]
   \<and> fst (snd (list_hostnames [''alpha''] [(''alpha'', alpha)] (disk (JArr [alpha]))))
       = [(''alpha'', alpha)]
   \<and> snd (load_index ''servers.json'' (disk (JArr [alpha]))) = disk (JArr [alpha])
   \<and> files (disk (JArr [alpha])) ''servers.json''
       = files ((disk (JArr [alpha]))\<lparr>stdout := [Print (JStr ''x'')]\<rparr>) ''servers.json''
   \<and> fst (load_index ''servers.json'' (disk (JArr [alpha])))
       = fst (load_index ''servers.json'' ((disk (JArr [alpha]))\<lparr>stdout := [Print (JStr ''x'')]\<rparr>))
   \<and> files (snd (main \<lparr>json = ''servers.json'', host = None\<rparr> (disk (JArr [alpha]))))
       = files (disk (JArr [alpha]))"
proof -
  let ?w = "disk (JArr [alpha])"
  let ?w' = "(disk (JArr [alpha]))\<lparr>stdout := [Print (JStr ''x'')]\<rparr>"
  let ?index = "[(''alpha'', alpha)]"
  let ?a = "\<lparr>json = ''servers.json'', host = None\<rparr>"
  have f: "files ?w ''servers.json'' = files ?w' ''servers.json''" by simp
  note hit = index_and_files_unchanged
    [of ?index "''ALPHA''" "[''alpha'']" ?w "''servers.json''" ?w' ?a]
  note miss = index_and_files_unchanged
    [of ?index "''gamma''" "[''alpha'']" ?w "''servers.json''" ?w' ?a]
  from hit have 1: "snd (lookup ?index ''ALPHA'') = ?index" by blast
  from miss have 2: "snd (lookup ?index ''gamma'') = ?index" by blast
  from hit have 3: "fst (snd (list_hostnames [''alpha''] ?index ?w)) = ?index" by blast
  from hit have 4: "snd (load_index ''servers.json'' ?w) = ?w" by blast
  from hit f have 5: "fst (load_index ''servers.json'' ?w) = fst (load_index ''servers.json'' ?w')"
    by blast
  from hit have 6: "files (snd (main ?a ?w)) = files ?w" by blast
  from 1 2 3 4 f 5 6 show ?thesis by (intro conjI)
qed

end
